theory Spec2Isabelle
  imports Main "HOL-Library.Sublist"
begin

section \<open>Strings\<close>

text \<open>
  JavaScript strings are modelled as \<open>string\<close>, one \<open>char\<close> per code unit below 256.
  JavaScript numbers that the script only ever uses as integers (the day counter, the clock
  settings, time values in milliseconds) are modelled as \<open>int\<close>.
\<close>

text \<open>The white space and line terminator code units that \<open>String.prototype.trim\<close> strips
  (those below 256): TAB, LF, VT, FF, CR, SP and NBSP.\<close>

definition isWhiteSpace :: "char \<Rightarrow> bool" where
  "isWhiteSpace c = (c \<in> set [CHR 0x09, CHR 0x0A, CHR 0x0B, CHR 0x0C, CHR 0x0D, CHR 0x20, CHR 0xA0])"

definition trim :: "string \<Rightarrow> string" where
  "trim s = rev (dropWhile isWhiteSpace (rev (dropWhile isWhiteSpace s)))"

definition startsWith :: "string \<Rightarrow> string \<Rightarrow> bool" where
  "startsWith s p = (take (length p) s = p)"

text \<open>\<open>s.includes(p)\<close>: \<open>p\<close> occurs in \<open>s\<close> at some position.\<close>

fun includesStr :: "string \<Rightarrow> string \<Rightarrow> bool" where
  "includesStr [] p = (p = [])"
| "includesStr (c # cs) p = (startsWith (c # cs) p \<or> includesStr cs p)"

text \<open>\<open>String(n)\<close> for an integer \<open>n\<close>: decimal digits, with a minus sign when negative.\<close>

definition digitChar :: "nat \<Rightarrow> char" where
  "digitChar n = ''0123456789'' ! (n mod 10)"

fun natToString :: "nat \<Rightarrow> string" where
  "natToString n = (if n < 10 then [digitChar n] else natToString (n div 10) @ [digitChar (n mod 10)])"

definition numberToString :: "int \<Rightarrow> string" where
  "numberToString n = (if n < 0 then CHR ''-'' # natToString (nat (- n)) else natToString (nat n))"

section \<open>The tournament submitter\<close>

record params =
  server :: string
  token :: string
  name :: string
  description :: string
  clockTime :: int
  clockIncrement :: int
  minutes :: int
  rated :: bool
  variant :: string
  startDateISO :: string
  hostTeamId :: string
  teams :: "string list"
  dryRun :: "bool option"

text \<open>The value \<open>createTeamBattle\<close> resolves to; an absent optional field is \<open>None\<close>.\<close>

record submit_result =
  ok :: bool
  url :: "string option"
  error :: "string option"

text \<open>The request handed to \<open>fetch\<close>; the form body is the ordered list of its pairs.\<close>

record request =
  reqUrl :: string
  reqMethod :: string
  reqHeaders :: "(string \<times> string) list"
  reqBody :: "(string \<times> string) list"

text \<open>
  What the remote end answers is not part of the script, so it is a parameter: either
  \<open>fetch\<close> rejects (with the string form of the error), or it resolves to a response.
  Of a response the script reads \<open>ok\<close>, \<open>status\<close>, \<open>text()\<close>, \<open>json()\<close> and the
  \<open>Location\<close> header. Reading the body can throw (\<open>Inl\<close> the string form of the error).
  Of the parsed JSON only \<open>data?.id\<close> is used: \<open>Some s\<close> when it is truthy, with
  \<open>s\<close> its string form, and \<open>None\<close> otherwise.
\<close>

record response =
  resOk :: bool
  resStatus :: int
  resText :: "string + string"
  resJson :: "string + string option"
  resLocation :: "string option"

datatype fetch_outcome = Rejected string | Resolved response

definition tokenInvalid :: "string \<Rightarrow> bool" where
  "tokenInvalid t = (t = [] \<or> trim t = [] \<or> includesStr t ''***'' \<or> includesStr t ''YOUR_TOKEN'')"

definition invitedTeams :: "string \<Rightarrow> string list \<Rightarrow> string list" where
  "invitedTeams host ts = filter (\<lambda>t. t \<noteq> [] \<and> t \<noteq> host) ts"

definition formBody :: "params \<Rightarrow> (string \<times> string) list" where
  "formBody p =
     [(''name'', name p),
      (''description'', description p),
      (''clockTime'', numberToString (clockTime p)),
      (''clockIncrement'', numberToString (clockIncrement p)),
      (''minutes'', numberToString (minutes p)),
      (''rated'', if rated p then ''true'' else ''false''),
      (''variant'', variant p),
      (''startDate'', startDateISO p),
      (''hostTeamId'', hostTeamId p)]
     @ map (\<lambda>t. (''teams[]'', t)) (invitedTeams (hostTeamId p) (teams p))"

definition arenaRequest :: "params \<Rightarrow> request" where
  "arenaRequest p =
     \<lparr> reqUrl = server p @ ''/api/team/'' @ hostTeamId p @ ''/arena'',
       reqMethod = ''POST'',
       reqHeaders =
         [(''Authorization'', ''Bearer '' @ token p),
          (''Content-Type'', ''application/x-www-form-urlencoded''),
          (''Accept'', ''application/json'')],
       reqBody = formBody p \<rparr>"

definition failure :: "string \<Rightarrow> submit_result" where
  "failure e = \<lparr> ok = False, url = None, error = Some e \<rparr>"

definition success :: "string \<Rightarrow> submit_result" where
  "success u = \<lparr> ok = True, url = Some u, error = None \<rparr>"

definition invalidTokenMessage :: string where
  "invalidTokenMessage =
     ''Invalid or missing OAuth token. Please set a valid OAUTH_TOKEN environment variable.''"

text \<open>What the script makes of a resolved response (the body of the \<open>try\<close> after \<open>fetch\<close>).\<close>

definition handleResponse :: "params \<Rightarrow> response \<Rightarrow> submit_result" where
  "handleResponse p res =
     (if \<not> resOk res then
        (case resText res of
           Inl e \<Rightarrow> failure e
         | Inr errorText \<Rightarrow> failure (numberToString (resStatus res) @ '': '' @ errorText))
      else
        (case resJson res of
           Inl e \<Rightarrow> failure e
         | Inr (Some i) \<Rightarrow> success (server p @ ''/tournament/'' @ i)
         | Inr None \<Rightarrow>
             (case resLocation res of
                None \<Rightarrow> success ''unknown''
              | Some l \<Rightarrow> success (if l = [] then ''unknown'' else l))))"

text \<open>
  \<open>createTeamBattle\<close>, with the network as the parameter \<open>fetch\<close>. It returns the result
  together with the list of requests it sent. Console output is not modelled.
\<close>

definition createTeamBattle :: "(request \<Rightarrow> fetch_outcome) \<Rightarrow> params \<Rightarrow> submit_result \<times> request list" where
  "createTeamBattle fetch p =
     (if tokenInvalid (token p) then (failure invalidTokenMessage, [])
      else if dryRun p = Some True then
        (success (server p @ ''/team/'' @ hostTeamId p @ ''/arena/pending''), [])
      else
        (case fetch (arenaRequest p) of
           Rejected e \<Rightarrow> (failure e, [arenaRequest p])
         | Resolved res \<Rightarrow> (handleResponse p res, [arenaRequest p])))"

section \<open>Dates\<close>

text \<open>
  The script computes its dates with the built-in \<open>Date\<close> object, which is not part of
  the repository. Its operations are modelled after the abstract operations of the
  ECMAScript specification, on integer time values (milliseconds since
  1970-01-01T00:00:00Z). An invalid date (time value \<open>NaN\<close>) is \<open>None\<close>.
\<close>

definition msPerDay :: int where
  "msPerDay = 86400000"

definition DayNumber :: "int \<Rightarrow> int" where
  "DayNumber t = t div msPerDay"

definition DaysInYear :: "int \<Rightarrow> int" where
  "DaysInYear y =
     (if y mod 4 \<noteq> 0 then 365
      else if y mod 100 \<noteq> 0 then 366
      else if y mod 400 \<noteq> 0 then 365
      else 366)"

definition DayFromYear :: "int \<Rightarrow> int" where
  "DayFromYear y = 365 * (y - 1970) + (y - 1969) div 4 - (y - 1901) div 100 + (y - 1601) div 400"

text \<open>
  The year of a day number \<open>d\<close> is the year \<open>y\<close> with
  \<open>DayFromYear y \<le> d < DayFromYear (y + 1)\<close>; it is found by stepping from an estimate.
\<close>

function yearSearch :: "int \<Rightarrow> int \<Rightarrow> int" where
  "yearSearch d y =
     (if d < DayFromYear y then yearSearch d (y - 1)
      else if DayFromYear (y + 1) \<le> d then yearSearch d (y + 1)
      else y)"
  by pat_completeness auto
termination
proof (relation "measure (\<lambda>(d, y).
         if d < DayFromYear y then nat (DayFromYear y - d)
         else if DayFromYear (y + 1) \<le> d then nat (d - DayFromYear (y + 1) + 1)
         else 0)")
  have up: "DayFromYear y < DayFromYear (y + 1)" for y
  proof -
    have a: "(y - 1969) div 4 \<le> (y + 1 - 1969) div 4" by (rule zdiv_mono1) simp_all
    have b: "(y - 1601) div 400 \<le> (y + 1 - 1601) div 400" by (rule zdiv_mono1) simp_all
    have "(y + 1 - 1901) div 100 \<le> (y - 1901 + 100) div 100" by (rule zdiv_mono1) simp_all
    then have c: "(y + 1 - 1901) div 100 \<le> (y - 1901) div 100 + 1" by simp
    have lin: "365 * (y - 1970) + p - q + r < 365 * (y + 1 - 1970) + p' - q' + r'"
      if "p \<le> p'" "r \<le> r'" "q' \<le> q + 1" for p q r p' q' r' :: int
      using that by simp
    show ?thesis unfolding DayFromYear_def by (rule lin [OF a b c])
  qed
  show "wf (measure (\<lambda>(d, y).
         if d < DayFromYear y then nat (DayFromYear y - d)
         else if DayFromYear (y + 1) \<le> d then nat (d - DayFromYear (y + 1) + 1)
         else 0))" by simp
  show "((d, y - 1), (d, y)) \<in> measure (\<lambda>(d, y).
         if d < DayFromYear y then nat (DayFromYear y - d)
         else if DayFromYear (y + 1) \<le> d then nat (d - DayFromYear (y + 1) + 1)
         else 0)" if "d < DayFromYear y" for d y
  proof -
    have "DayFromYear (y - 1) < DayFromYear y" using up [of "y - 1"] by simp
    with that show ?thesis by simp
  qed
  show "((d, y + 1), (d, y)) \<in> measure (\<lambda>(d, y).
         if d < DayFromYear y then nat (DayFromYear y - d)
         else if DayFromYear (y + 1) \<le> d then nat (d - DayFromYear (y + 1) + 1)
         else 0)" if "\<not> d < DayFromYear y" "DayFromYear (y + 1) \<le> d" for d y
  proof -
    have "DayFromYear (y + 1) < DayFromYear (y + 1 + 1)" by (rule up)
    with that show ?thesis by simp
  qed
qed

declare yearSearch.simps [simp del]

definition yearFromDay :: "int \<Rightarrow> int" where
  "yearFromDay d = yearSearch d (1970 + d div 366)"

definition YearFromTime :: "int \<Rightarrow> int" where
  "YearFromTime t = yearFromDay (DayNumber t)"

text \<open>1 for a leap year, 0 otherwise.\<close>

definition leapFlag :: "int \<Rightarrow> int" where
  "leapFlag y = (if DaysInYear y = 366 then 1 else 0)"

definition InLeapYear :: "int \<Rightarrow> int" where
  "InLeapYear t = leapFlag (YearFromTime t)"

definition DayWithinYear :: "int \<Rightarrow> int" where
  "DayWithinYear t = DayNumber t - DayFromYear (YearFromTime t)"

text \<open>The month (0 to 11) of day \<open>d\<close> within a year, \<open>l\<close> being 1 in a leap year, else 0.\<close>

definition monthOfYearDay :: "int \<Rightarrow> int \<Rightarrow> int" where
  "monthOfYearDay d l =
     (if d < 31 then 0
      else if d < 59 + l then 1
      else if d < 90 + l then 2
      else if d < 120 + l then 3
      else if d < 151 + l then 4
      else if d < 181 + l then 5
      else if d < 212 + l then 6
      else if d < 243 + l then 7
      else if d < 273 + l then 8
      else if d < 304 + l then 9
      else if d < 334 + l then 10
      else 11)"

definition MonthFromTime :: "int \<Rightarrow> int" where
  "MonthFromTime t = monthOfYearDay (DayWithinYear t) (InLeapYear t)"

text \<open>The day within the year on which month \<open>m\<close> (0 to 11) starts.\<close>

definition monthStart :: "int \<Rightarrow> int \<Rightarrow> int" where
  "monthStart m l =
     (if m = 0 then 0
      else if m = 1 then 31
      else if m = 2 then 59 + l
      else if m = 3 then 90 + l
      else if m = 4 then 120 + l
      else if m = 5 then 151 + l
      else if m = 6 then 181 + l
      else if m = 7 then 212 + l
      else if m = 8 then 243 + l
      else if m = 9 then 273 + l
      else if m = 10 then 304 + l
      else 334 + l)"

definition DateFromTime :: "int \<Rightarrow> int" where
  "DateFromTime t = DayWithinYear t - monthStart (MonthFromTime t) (InLeapYear t) + 1"

definition HourFromTime :: "int \<Rightarrow> int" where
  "HourFromTime t = (t div 3600000) mod 24"

definition MinFromTime :: "int \<Rightarrow> int" where
  "MinFromTime t = (t div 60000) mod 60"

definition SecFromTime :: "int \<Rightarrow> int" where
  "SecFromTime t = (t div 1000) mod 60"

definition msFromTime :: "int \<Rightarrow> int" where
  "msFromTime t = t mod 1000"

definition MakeTime :: "int \<Rightarrow> int \<Rightarrow> int \<Rightarrow> int \<Rightarrow> int" where
  "MakeTime h m s milli = h * 3600000 + m * 60000 + s * 1000 + milli"

definition MakeDay :: "int \<Rightarrow> int \<Rightarrow> int \<Rightarrow> int" where
  "MakeDay year month date =
     (let ym = year + month div 12;
          mn = month mod 12
      in DayFromYear ym + monthStart mn (leapFlag ym) + date - 1)"

definition MakeDate :: "int \<Rightarrow> int \<Rightarrow> int" where
  "MakeDate day time = day * msPerDay + time"

definition TimeClip :: "int \<Rightarrow> int option" where
  "TimeClip t = (if \<bar>t\<bar> > 8640000000000000 then None else Some t)"

text \<open>A year from 0 to 99 given to the \<open>Date\<close> constructor or to \<open>Date.UTC\<close> means 1900 + year.\<close>

definition MakeFullYear :: "int \<Rightarrow> int" where
  "MakeFullYear y = (if 0 \<le> y \<and> y \<le> 99 then 1900 + y else y)"

text \<open>
  The host's local time zone is not part of the script either: it is the parameter
  \<open>timezone\<close>, the offset of local time from UTC in milliseconds, asked for a UTC time
  value (\<open>offsetAtUTC\<close>) or for a local one (\<open>offsetAtLocal\<close>).
\<close>

record timezone =
  offsetAtUTC :: "int \<Rightarrow> int"
  offsetAtLocal :: "int \<Rightarrow> int"

definition LocalTime :: "timezone \<Rightarrow> int \<Rightarrow> int" where
  "LocalTime tz t = t + offsetAtUTC tz t"

definition UTC :: "timezone \<Rightarrow> int \<Rightarrow> int" where
  "UTC tz t = t - offsetAtLocal tz t"

text \<open>\<open>new Date(year, month, date)\<close>: midnight of that date in local time.\<close>

definition newDateLocal :: "timezone \<Rightarrow> int \<Rightarrow> int \<Rightarrow> int \<Rightarrow> int option" where
  "newDateLocal tz year month date =
     TimeClip (UTC tz (MakeDate (MakeDay (MakeFullYear year) month date) (MakeTime 0 0 0 0)))"

definition getFullYear :: "timezone \<Rightarrow> int \<Rightarrow> int" where
  "getFullYear tz t = YearFromTime (LocalTime tz t)"

definition getMonth :: "timezone \<Rightarrow> int \<Rightarrow> int" where
  "getMonth tz t = MonthFromTime (LocalTime tz t)"

definition getDate :: "timezone \<Rightarrow> int \<Rightarrow> int" where
  "getDate tz t = DateFromTime (LocalTime tz t)"

text \<open>\<open>Date.UTC(year, month, date, hours, minutes, 0, 0)\<close>.\<close>

definition DateUTC :: "int \<Rightarrow> int \<Rightarrow> int \<Rightarrow> int \<Rightarrow> int \<Rightarrow> int option" where
  "DateUTC year month date hours mins =
     TimeClip (MakeDate (MakeDay (MakeFullYear year) month date) (MakeTime hours mins 0 0))"

definition padZero :: "nat \<Rightarrow> string \<Rightarrow> string" where
  "padZero n s = replicate (n - length s) (CHR ''0'') @ s"

definition isoYear :: "int \<Rightarrow> string" where
  "isoYear y =
     (if 0 \<le> y \<and> y \<le> 9999 then padZero 4 (natToString (nat y))
      else (if y < 0 then ''-'' else ''+'') @ padZero 6 (natToString (nat \<bar>y\<bar>)))"

text \<open>\<open>toISOString\<close> of a valid date.\<close>

definition toISOString :: "int \<Rightarrow> string" where
  "toISOString t =
     isoYear (YearFromTime t) @ ''-'' @ padZero 2 (natToString (nat (MonthFromTime t + 1)))
     @ ''-'' @ padZero 2 (natToString (nat (DateFromTime t)))
     @ ''T'' @ padZero 2 (natToString (nat (HourFromTime t)))
     @ '':'' @ padZero 2 (natToString (nat (MinFromTime t)))
     @ '':'' @ padZero 2 (natToString (nat (SecFromTime t)))
     @ ''.'' @ padZero 3 (natToString (nat (msFromTime t))) @ ''Z''"

datatype js_error = RangeError | MissingToken | WriteFailed

text \<open>\<open>createTournamentDate\<close>; \<open>toISOString\<close> throws a RangeError on an invalid date.\<close>

definition createTournamentDate :: "int \<Rightarrow> int \<Rightarrow> int \<Rightarrow> int \<Rightarrow> int \<Rightarrow> js_error + string" where
  "createTournamentDate year month day hour minute =
     (case DateUTC year (month - 1) day hour minute of
        None \<Rightarrow> Inl RangeError
      | Some date \<Rightarrow> Inr (toISOString date))"

section \<open>The schedule generator\<close>

datatype slot = Day | Night

definition slotName :: "slot \<Rightarrow> string" where
  "slotName s = (case s of Day \<Rightarrow> ''Day'' | Night \<Rightarrow> ''Night'')"

definition buildTournamentName :: "int \<Rightarrow> slot \<Rightarrow> string" where
  "buildTournamentName dayNum ty =
     ''LMAO '' @ slotName ty @ '' '' @ [CHR 0x27] @ numberToString dayNum @ [CHR 0x27] @ '' Team Battle''"

definition buildDescription :: "int \<Rightarrow> slot \<Rightarrow> string" where
  "buildDescription dayNum ty =
     ''Welcome to the LMAO '' @ slotName ty @ '' '' @ [CHR 0x27] @ numberToString dayNum @ [CHR 0x27]
     @ '' Team Battle! Have fun and fair play!''"

record tournament =
  name :: string
  description :: string
  startDateISO :: string
  dayNum :: int
  type :: slot

text \<open>
  One round of the loop over \<open>dayOffset\<close>: the two descriptors of that day. When
  \<open>targetDate\<close> is invalid its getters return \<open>NaN\<close>, \<open>Date.UTC\<close> returns \<open>NaN\<close> and
  \<open>toISOString\<close> throws.
\<close>

definition dayTournaments :: "timezone \<Rightarrow> int \<Rightarrow> int \<Rightarrow> int \<Rightarrow> int \<Rightarrow> int \<Rightarrow> js_error + tournament list" where
  "dayTournaments tz currentYear currentMonth currentDay nextDayNum dayOffset =
     (let tournamentDayNum = nextDayNum + dayOffset in
      case newDateLocal tz currentYear (currentMonth - 1) (currentDay + dayOffset) of
        None \<Rightarrow> Inl RangeError
      | Some targetDate \<Rightarrow>
          (let targetYear = getFullYear tz targetDate;
               targetMonth = getMonth tz targetDate + 1;
               targetDay = getDate tz targetDate
           in case createTournamentDate targetYear targetMonth targetDay 6 58 of
                Inl e \<Rightarrow> Inl e
              | Inr dayISO \<Rightarrow>
                  (case createTournamentDate targetYear targetMonth targetDay 18 58 of
                     Inl e \<Rightarrow> Inl e
                   | Inr nightISO \<Rightarrow>
                       Inr [\<lparr> name = buildTournamentName tournamentDayNum Day,
                              description = buildDescription tournamentDayNum Day,
                              startDateISO = dayISO,
                              dayNum = tournamentDayNum,
                              type = Day \<rparr>,
                            \<lparr> name = buildTournamentName tournamentDayNum Night,
                              description = buildDescription tournamentDayNum Night,
                              startDateISO = nightISO,
                              dayNum = tournamentDayNum,
                              type = Night \<rparr>])))"

text \<open>The loop \<open>for (dayOffset = 0; dayOffset < 2; dayOffset++)\<close>.\<close>

definition buildTournaments :: "timezone \<Rightarrow> int \<Rightarrow> int \<Rightarrow> int \<Rightarrow> int \<Rightarrow> js_error + tournament list" where
  "buildTournaments tz currentYear currentMonth currentDay nextDayNum =
     (case dayTournaments tz currentYear currentMonth currentDay nextDayNum 0 of
        Inl e \<Rightarrow> Inl e
      | Inr first \<Rightarrow>
          (case dayTournaments tz currentYear currentMonth currentDay nextDayNum 1 of
             Inl e \<Rightarrow> Inl e
           | Inr second \<Rightarrow> Inr (first @ second)))"

section \<open>The run driver\<close>

record config =
  server :: string
  hostTeamId :: string
  timezone :: string
  minutes :: int
  clockTime :: int
  clockIncrement :: int
  rated :: bool
  variant :: string
  teams :: "string list"
  dryRun :: "bool option"

text \<open>
  What a run finds around it: the two environment variables, the state file
  (\<open>None\<close> when \<open>readJSON\<close> throws, else its \<open>lastTournamentDayNum\<close>), the clock, the
  host's time zone, what the network answers to the request of the \<open>i\<close>-th descriptor, and
  whether \<open>writeFileSync\<close> throws.
\<close>

record env =
  OAUTH_TOKEN :: "string option"
  DRY_RUN :: "string option"
  stateFile :: "int option"
  now :: int
  zone :: timezone
  fetch :: "nat \<Rightarrow> request \<Rightarrow> fetch_outcome"
  writeThrows :: bool

text \<open>\<open>Math.max\<close> of a list of numbers; of no number at all it is \<open>-Infinity\<close>.\<close>

datatype counter = Num int | NegInfinity

fun mathMax :: "int list \<Rightarrow> counter" where
  "mathMax [] = NegInfinity"
| "mathMax (x # xs) = (case mathMax xs of NegInfinity \<Rightarrow> Num x | Num m \<Rightarrow> Num (max x m))"

text \<open>
  What a run does: its exit status, the results of the submissions in order, the requests
  sent, and the \<open>lastTournamentDayNum\<close> handed to \<open>writeFileSync\<close> (\<open>None\<close> when the state
  file is not written). The ten-second waits and console output are not modelled.
\<close>

record run =
  exitStatus :: nat
  results :: "submit_result list"
  requests :: "request list"
  written :: "counter option"

record tally =
  successCount :: nat
  failureCount :: nat
  tallyResults :: "submit_result list"
  tallyRequests :: "request list"

text \<open>The loop over the descriptors, from index \<open>i\<close> on.\<close>

fun submitAll :: "(nat \<Rightarrow> request \<Rightarrow> fetch_outcome) \<Rightarrow> config \<Rightarrow> string \<Rightarrow> nat \<Rightarrow> tournament list \<Rightarrow> tally \<Rightarrow> tally" where
  "submitAll f cfg oauthToken i [] acc = acc"
| "submitAll f cfg oauthToken i (t # ts) acc =
     (let (result, sent) =
            createTeamBattle (f i)
              \<lparr> params.server = config.server cfg,
                params.token = oauthToken,
                params.name = tournament.name t,
                params.description = tournament.description t,
                params.clockTime = config.clockTime cfg,
                params.clockIncrement = config.clockIncrement cfg,
                params.minutes = config.minutes cfg,
                params.rated = config.rated cfg,
                params.variant = config.variant cfg,
                params.startDateISO = tournament.startDateISO t,
                params.hostTeamId = config.hostTeamId cfg,
                params.teams = config.teams cfg,
                params.dryRun = config.dryRun cfg \<rparr>
      in submitAll f cfg oauthToken (Suc i) ts
           (if ok result
            then acc\<lparr> successCount := Suc (successCount acc),
                      tallyResults := tallyResults acc @ [result],
                      tallyRequests := tallyRequests acc @ sent \<rparr>
            else acc\<lparr> failureCount := Suc (failureCount acc),
                      tallyResults := tallyResults acc @ [result],
                      tallyRequests := tallyRequests acc @ sent \<rparr>))"

definition loadConfig :: "env \<Rightarrow> config" where
  "loadConfig e =
     \<lparr> server = ''https://lichess.org'',
       hostTeamId = ''lmao-teamfights'',
       timezone = ''UTC'',
       minutes = 720,
       clockTime = 3,
       clockIncrement = 0,
       rated = True,
       variant = ''standard'',
       teams = [''lmao-teamfights'', ''darkonteams'', ''rare'', ''tekio''],
       dryRun = Some (DRY_RUN e = Some ''1'' \<or> DRY_RUN e = Some ''true'') \<rparr>"

text \<open>The state the run starts from: the file's counter, or 24 when it cannot be read.\<close>

definition loadState :: "env \<Rightarrow> int" where
  "loadState e = (case stateFile e of None \<Rightarrow> 24 | Some n \<Rightarrow> n)"

text \<open>The schedule of a run, from the clock and the state.\<close>

definition schedule :: "env \<Rightarrow> js_error + tournament list" where
  "schedule e =
     (let nextDayNum = loadState e + 1;
          currentYear = YearFromTime (now e);
          currentMonth = MonthFromTime (now e) + 1;
          currentDay = DateFromTime (now e)
      in buildTournaments (zone e) currentYear currentMonth currentDay nextDayNum)"

text \<open>
  \<open>main\<close>. An exception inside the \<open>try\<close> reaches the \<open>catch\<close>, which exits with
  status 1; without a call of \<open>process.exit\<close> the status is 0.
\<close>

definition main :: "env \<Rightarrow> run" where
  "main e =
     (case OAUTH_TOKEN e of
        None \<Rightarrow> \<lparr> exitStatus = 1, results = [], requests = [], written = None \<rparr>
      | Some oauthToken \<Rightarrow>
          if oauthToken = [] then \<lparr> exitStatus = 1, results = [], requests = [], written = None \<rparr>
          else
            (case schedule e of
               Inl err \<Rightarrow> \<lparr> exitStatus = 1, results = [], requests = [], written = None \<rparr>
             | Inr tournaments \<Rightarrow>
                 (let t = submitAll (fetch e) (loadConfig e) oauthToken 0 tournaments
                            \<lparr> successCount = 0, failureCount = 0, tallyResults = [], tallyRequests = [] \<rparr>
                  in if successCount t > 0 then
                       (let maxDayNum = mathMax (map dayNum tournaments) in
                        if writeThrows e then
                          \<lparr> exitStatus = 1, results = tallyResults t, requests = tallyRequests t,
                            written = Some maxDayNum \<rparr>
                        else
                          \<lparr> exitStatus = (if failureCount t > 0 then 1 else 0),
                            results = tallyResults t, requests = tallyRequests t,
                            written = Some maxDayNum \<rparr>)
                     else
                       \<lparr> exitStatus = (if failureCount t > 0 then 1 else 0),
                         results = tallyResults t, requests = tallyRequests t,
                         written = None \<rparr>)))"

section \<open>The calendar, as the claims speak of it\<close>

text \<open>
  These definitions are not taken from the script: they say what a calendar date, its
  successor and its time stamp are, for the statements about the schedule's dates.
\<close>

definition isLeapYear :: "int \<Rightarrow> bool" where
  "isLeapYear y \<longleftrightarrow> y mod 4 = 0 \<and> (y mod 100 \<noteq> 0 \<or> y mod 400 = 0)"

text \<open>The length of month \<open>m\<close> (1 to 12) of year \<open>y\<close>.\<close>

definition daysInMonth :: "int \<Rightarrow> int \<Rightarrow> int" where
  "daysInMonth y m =
     (if m = 2 then (if isLeapYear y then 29 else 28)
      else if m = 4 \<or> m = 6 \<or> m = 9 \<or> m = 11 then 30
      else 31)"


text \<open>The calendar day after (year, month, day).\<close>

definition nextCalendarDay :: "int \<times> int \<times> int \<Rightarrow> int \<times> int \<times> int" where
  "nextCalendarDay ymd =
     (case ymd of (y, m, d) \<Rightarrow>
        if d < daysInMonth y m then (y, m, d + 1)
        else if m < 12 then (y, m + 1, 1)
        else (y + 1, 1, 1))"





section \<open>Auxiliary notions\<close>

text \<open>The counters of a tally agree with its list of results.\<close>

definition counted :: "tally \<Rightarrow> bool" where
  "counted acc \<longleftrightarrow>
     successCount acc = length (filter ok (tallyResults acc))
     \<and> failureCount acc = length (filter (\<lambda>r. \<not> ok r) (tallyResults acc))"

text \<open>The tally \<open>main\<close> ends its submission loop with.\<close>

definition tallyOf :: "env \<Rightarrow> string \<Rightarrow> tournament list \<Rightarrow> tally" where
  "tallyOf e tok ts = submitAll (fetch e) (loadConfig e) tok 0 ts
      \<lparr> successCount = 0, failureCount = 0, tallyResults = [], tallyRequests = [] \<rparr>"


subsection \<open>Sample environments\<close>

definition utcZone :: timezone where
  "utcZone = \<lparr> offsetAtUTC = (\<lambda>t. 0), offsetAtLocal = (\<lambda>t. 0) \<rparr>"

definition createdResponse :: response where
  "createdResponse =
     \<lparr> resOk = True, resStatus = 200, resText = Inr [], resJson = Inr (Some ''abc''),
       resLocation = None \<rparr>"


text \<open>2024-12-31T12:00:00Z, no state file; the network is down.\<close>

definition envAllFail :: env where
  "envAllFail =
     \<lparr> OAUTH_TOKEN = Some ''lip_abc'', DRY_RUN = None, stateFile = None,
       now = 1735646400000, zone = utcZone,
       fetch = (\<lambda>i r. Rejected ''down''),
       writeThrows = False \<rparr>"

text \<open>A dry run whose state file cannot be written.\<close>

definition envDryWriteThrows :: env where
  "envDryWriteThrows =
     \<lparr> OAUTH_TOKEN = Some ''lip_abc'', DRY_RUN = Some ''1'', stateFile = Some 24,
       now = 1709164800000, zone = utcZone,
       fetch = (\<lambda>i r. Rejected ''down''),
       writeThrows = True \<rparr>"

text \<open>A live run, every request answered with success, whose state file cannot be written.\<close>

definition envLiveWriteThrows :: env where
  "envLiveWriteThrows =
     \<lparr> OAUTH_TOKEN = Some ''lip_abc'', DRY_RUN = None, stateFile = Some 40,
       now = 1709164800000, zone = utcZone,
       fetch = (\<lambda>i r. Resolved createdResponse),
       writeThrows = True \<rparr>"

text \<open>A live run, the second request refused by the server.\<close>

definition envOneFailure :: env where
  "envOneFailure =
     \<lparr> OAUTH_TOKEN = Some ''lip_abc'', DRY_RUN = Some ''0'', stateFile = Some 24,
       now = 1709164800000, zone = utcZone,
       fetch = (\<lambda>i r. if i = 1
                  then Resolved \<lparr> resOk = False, resStatus = 429, resText = Inr ''Too many requests'',
                                  resJson = Inl ''no json'', resLocation = None \<rparr>
                  else Resolved createdResponse),
       writeThrows = False \<rparr>"

section \<open>Properties of the string helpers\<close>

lemma includes_iff: "includesStr s p \<longleftrightarrow> (\<exists>a b. s = a @ p @ b)"
proof (induction s)
  case Nil
  show ?case by auto
next
  case (Cons c cs)
  have sw: "startsWith (c # cs) p \<longleftrightarrow> (\<exists>b. c # cs = p @ b)"
    unfolding startsWith_def
    by (metis append_eq_conv_conj)
  show ?case
  proof
    assume "includesStr (c # cs) p"
    then consider "startsWith (c # cs) p" | "includesStr cs p" by auto
    then show "\<exists>a b. c # cs = a @ p @ b"
    proof cases
      case 1
      then obtain b where "c # cs = p @ b" using sw by blast
      then have "c # cs = [] @ p @ b" by simp
      then show ?thesis by blast
    next
      case 2
      then obtain a b where "cs = a @ p @ b" using Cons.IH by blast
      then have "c # cs = (c # a) @ p @ b" by simp
      then show ?thesis by blast
    qed
  next
    assume "\<exists>a b. c # cs = a @ p @ b"
    then obtain a b where ab: "c # cs = a @ p @ b" by blast
    show "includesStr (c # cs) p"
    proof (cases a)
      case Nil
      with ab have "c # cs = p @ b" by simp
      then have "startsWith (c # cs) p" using sw by blast
      then show ?thesis by simp
    next
      case (Cons x a')
      with ab have "cs = a' @ p @ b" by simp
      then have "includesStr cs p" using Cons.IH by blast
      then show ?thesis by simp
    qed
  qed
qed

lemma trim_whitespace_only: "\<forall>c \<in> set s. isWhiteSpace c \<Longrightarrow> trim s = []"
proof -
  assume "\<forall>c \<in> set s. isWhiteSpace c"
  then have d: "dropWhile isWhiteSpace s = []" by (simp add: dropWhile_eq_Nil_conv)
  show ?thesis unfolding trim_def d by simp
qed

lemma tokenInvalid_iff:
  "tokenInvalid t \<longleftrightarrow>
     (t = [] \<or> trim t = [] \<or> (\<exists>a b. t = a @ ''***'' @ b) \<or> (\<exists>a b. t = a @ ''YOUR_TOKEN'' @ b))"
  by (simp only: tokenInvalid_def includes_iff)

section \<open>The tournament submitter: token check, dry run, invited teams\<close>

text \<open>
  C4. A call whose token is the empty string, or contains \<open>YOUR_TOKEN\<close>, or contains
  \<open>***\<close>, returns at once the failure result carrying the authentication error message,
  and sends no request, whatever the network would answer.
\<close>

theorem C4_placeholder_token_fails_without_request:
  assumes "params.token p = [] \<or> (\<exists>a b. params.token p = a @ ''YOUR_TOKEN'' @ b) \<or> (\<exists>a b. params.token p = a @ ''***'' @ b)"
  shows "createTeamBattle net p =
           (\<lparr> ok = False, url = None, error = Some invalidTokenMessage \<rparr>, [])"
proof -
  from assms have "tokenInvalid (params.token p)"
    unfolding tokenInvalid_iff by blast
  then show ?thesis
    by (simp add: createTeamBattle_def failure_def)
qed

theorem C4_witness:
  "createTeamBattle (\<lambda>r. Rejected ''unreachable'')
     \<lparr> params.server = ''https://lichess.org'', params.token = ''abcYOUR_TOKENdef'', params.name = ''n'',
       params.description = ''d'', params.clockTime = 3, params.clockIncrement = 0, params.minutes = 720, params.rated = True,
       params.variant = ''standard'', params.startDateISO = ''2024-02-29T06:58:00.000Z'',
       params.hostTeamId = ''lmao-teamfights'', params.teams = [''rare''], params.dryRun = None \<rparr>
   = (\<lparr> ok = False, url = None, error = Some invalidTokenMessage \<rparr>, [])"
proof -
  have "''abcYOUR_TOKENdef'' = ''abc'' @ ''YOUR_TOKEN'' @ ''def''" by simp
  then have "\<exists>a b. ''abcYOUR_TOKENdef'' = a @ ''YOUR_TOKEN'' @ b" by blast
  then show ?thesis
    by (intro C4_placeholder_token_fails_without_request) simp
qed

text \<open>
  C5. As stated (every dry-run call succeeds) the claim fails: with an empty token a
  dry-run call returns the failure result.
\<close>

theorem C5_counterexample:
  "\<not> ok (fst (createTeamBattle (\<lambda>r. Rejected ''unreachable'')
     \<lparr> params.server = ''https://lichess.org'', params.token = [], params.name = ''n'',
       params.description = ''d'', params.clockTime = 3, params.clockIncrement = 0, params.minutes = 720, params.rated = True,
       params.variant = ''standard'', params.startDateISO = ''2024-02-29T06:58:00.000Z'',
       params.hostTeamId = ''lmao-teamfights'', params.teams = [''rare''], params.dryRun = Some True \<rparr>))"
  by (simp add: createTeamBattle_def tokenInvalid_def failure_def)

text \<open>
  C5, amended. A call with \<open>dryRun\<close> set sends no request; and when its token passes the
  validity check, it returns the success result whose URL is exactly
  \<open>{server}/team/{hostTeamId}/arena/pending\<close>.
\<close>

theorem C5_dry_run:
  assumes "params.dryRun p = Some True"
  shows "snd (createTeamBattle net p) = []
       \<and> (\<not> tokenInvalid (params.token p) \<longrightarrow>
            fst (createTeamBattle net p) =
              \<lparr> ok = True, url = Some (params.server p @ ''/team/'' @ params.hostTeamId p @ ''/arena/pending''),
                error = None \<rparr>)"
  using assms by (simp add: createTeamBattle_def success_def)

theorem C5_witness:
  "createTeamBattle (\<lambda>r. Rejected ''unreachable'')
     \<lparr> params.server = ''https://lichess.org'', params.token = ''lip_abc'', params.name = ''n'',
       params.description = ''d'', params.clockTime = 3, params.clockIncrement = 0, params.minutes = 720, params.rated = True,
       params.variant = ''standard'', params.startDateISO = ''2024-02-29T06:58:00.000Z'',
       params.hostTeamId = ''lmao-teamfights'', params.teams = [''rare''], params.dryRun = Some True \<rparr>
   = (\<lparr> ok = True, url = Some ''https://lichess.org/team/lmao-teamfights/arena/pending'',
        error = None \<rparr>, [])"
proof -
  let ?p = "\<lparr> params.server = ''https://lichess.org'', params.token = ''lip_abc'', params.name = ''n'',
       params.description = ''d'', params.clockTime = 3, params.clockIncrement = 0, params.minutes = 720, params.rated = True,
       params.variant = ''standard'', params.startDateISO = ''2024-02-29T06:58:00.000Z'',
       params.hostTeamId = ''lmao-teamfights'', params.teams = [''rare''], params.dryRun = Some True \<rparr>"
  have v: "\<not> tokenInvalid (params.token ?p)"
    by (simp add: tokenInvalid_def trim_def isWhiteSpace_def startsWith_def)
  have d: "params.dryRun ?p = Some True" by simp
  from C5_dry_run [OF d, of "\<lambda>r. Rejected ''unreachable''"] v
  show ?thesis by (simp add: prod_eq_iff)
qed

text \<open>
  C6. As stated (the invited list is deduplicated) the claim fails: a team configured
  twice is invited twice.
\<close>

theorem C6_counterexample:
  "\<not> distinct (invitedTeams ''lmao-teamfights'' [''rare'', ''lmao-teamfights'', ''rare''])"
  by (simp add: invitedTeams_def)

text \<open>
  C6, amended. The invited list never contains the host team id (nor the empty string), it
  keeps the remaining configured teams in their configured order, every other team as often
  as it is configured, and it has no duplicate when the configured list has none.
\<close>

theorem C6_invited_teams:
  "host \<notin> set (invitedTeams host ts)
   \<and> [] \<notin> set (invitedTeams host ts)
   \<and> subseq (invitedTeams host ts) ts
   \<and> (\<forall>t. t \<noteq> host \<and> t \<noteq> [] \<longrightarrow> count_list (invitedTeams host ts) t = count_list ts t)
   \<and> (distinct ts \<longrightarrow> distinct (invitedTeams host ts))"
proof (intro conjI)
  show "host \<notin> set (invitedTeams host ts)" by (simp add: invitedTeams_def)
  show "[] \<notin> set (invitedTeams host ts)" by (simp add: invitedTeams_def)
  show "subseq (invitedTeams host ts) ts" by (simp add: invitedTeams_def)
  show "\<forall>t. t \<noteq> host \<and> t \<noteq> [] \<longrightarrow> count_list (invitedTeams host ts) t = count_list ts t"
    unfolding invitedTeams_def by (induction ts) auto
  show "distinct ts \<longrightarrow> distinct (invitedTeams host ts)" by (simp add: invitedTeams_def)
qed

theorem C6_witness:
  "invitedTeams ''lmao-teamfights'' [''lmao-teamfights'', ''darkonteams'', ''rare'', ''tekio'']
     = [''darkonteams'', ''rare'', ''tekio'']
   \<and> distinct (invitedTeams ''lmao-teamfights'' [''lmao-teamfights'', ''darkonteams'', ''rare'', ''tekio''])
   \<and> count_list (invitedTeams ''lmao-teamfights'' [''lmao-teamfights'', ''darkonteams'', ''rare'', ''tekio'']) ''rare'' = 1"
proof -
  have d: "distinct [''lmao-teamfights'', ''darkonteams'', ''rare'', ''tekio'']" by simp
  have n: "''rare'' \<noteq> ''lmao-teamfights'' \<and> ''rare'' \<noteq> []" by simp
  from C6_invited_teams [of "''lmao-teamfights''" "[''lmao-teamfights'', ''darkonteams'', ''rare'', ''tekio'']"] d n
  show ?thesis by (simp add: invitedTeams_def)
qed

text \<open>
  C9. The token check comes before the dry-run branch: a call whose token is empty,
  consists of white space only, or contains \<open>***\<close> or \<open>YOUR_TOKEN\<close> returns a failure
  result, and sends nothing, also when \<open>dryRun\<close> is set.
\<close>

theorem C9_token_check_precedes_dry_run:
  assumes "params.token p = [] \<or> (\<forall>c \<in> set (params.token p). isWhiteSpace c)
          \<or> (\<exists>a b. params.token p = a @ ''***'' @ b) \<or> (\<exists>a b. params.token p = a @ ''YOUR_TOKEN'' @ b)"
    and "params.dryRun p = Some True"
  shows "\<not> ok (fst (createTeamBattle net p))
       \<and> error (fst (createTeamBattle net p)) = Some invalidTokenMessage
       \<and> snd (createTeamBattle net p) = []"
proof -
  from assms(1) have "tokenInvalid (params.token p)"
    unfolding tokenInvalid_iff using trim_whitespace_only by blast
  then show ?thesis
    by (simp add: createTeamBattle_def failure_def)
qed

theorem C9_witness:
  "\<not> ok (fst (createTeamBattle (\<lambda>r. Rejected ''unreachable'')
     \<lparr> params.server = ''https://lichess.org'', params.token = ''  '', params.name = ''n'',
       params.description = ''d'', params.clockTime = 3, params.clockIncrement = 0, params.minutes = 720, params.rated = True,
       params.variant = ''standard'', params.startDateISO = ''2024-02-29T06:58:00.000Z'',
       params.hostTeamId = ''lmao-teamfights'', params.teams = [''rare''], params.dryRun = Some True \<rparr>))"
proof -
  let ?p = "\<lparr> params.server = ''https://lichess.org'', params.token = ''  '', params.name = ''n'',
       params.description = ''d'', params.clockTime = 3, params.clockIncrement = 0, params.minutes = 720, params.rated = True,
       params.variant = ''standard'', params.startDateISO = ''2024-02-29T06:58:00.000Z'',
       params.hostTeamId = ''lmao-teamfights'', params.teams = [''rare''], params.dryRun = Some True \<rparr>"
  have w: "\<forall>c \<in> set (params.token ?p). isWhiteSpace c" by (simp add: isWhiteSpace_def)
  have d: "params.dryRun ?p = Some True" by simp
  from C9_token_check_precedes_dry_run [of ?p, OF _ d] w
  show ?thesis by blast
qed

section \<open>The schedule: sequence numbers\<close>

lemma dayTournaments_shape:
  assumes "dayTournaments tz cy cm cd n off = Inr ts"
  shows "map (\<lambda>t. (dayNum t, type t)) ts = [(n + off, Day), (n + off, Night)]"
  using assms unfolding dayTournaments_def Let_def
  by (auto split: option.splits sum.splits)

lemma buildTournaments_shape:
  assumes "buildTournaments tz cy cm cd n = Inr ts"
  shows "map (\<lambda>t. (dayNum t, type t)) ts = [(n, Day), (n, Night), (n + 1, Day), (n + 1, Night)]"
proof -
  from assms obtain a b where a: "dayTournaments tz cy cm cd n 0 = Inr a"
    and b: "dayTournaments tz cy cm cd n 1 = Inr b" and ts: "ts = a @ b"
    unfolding buildTournaments_def by (auto split: sum.splits)
  show ?thesis
    using dayTournaments_shape [OF a] dayTournaments_shape [OF b] by (simp add: ts)
qed

lemma schedule_shape:
  assumes "schedule e = Inr ts"
  shows "map (\<lambda>t. (dayNum t, type t)) ts =
           [(loadState e + 1, Day), (loadState e + 1, Night), (loadState e + 2, Day), (loadState e + 2, Night)]"
proof -
  from assms have "buildTournaments (zone e) (YearFromTime (now e)) (MonthFromTime (now e) + 1)
      (DateFromTime (now e)) (loadState e + 1) = Inr ts"
    by (simp add: schedule_def Let_def)
  from buildTournaments_shape [OF this] show ?thesis by (simp add: add.assoc)
qed

lemma schedule_dayNums:
  assumes "schedule e = Inr ts"
  shows "map dayNum ts = [loadState e + 1, loadState e + 1, loadState e + 2, loadState e + 2]"
proof -
  have "map dayNum ts = map fst (map (\<lambda>t. (dayNum t, type t)) ts)" by (simp add: comp_def)
  then show ?thesis by (simp add: schedule_shape [OF assms])
qed


lemma schedule_length:
  assumes "schedule e = Inr ts"
  shows "length ts = 4"
proof -
  have "length (map dayNum ts) = 4" by (simp add: schedule_dayNums [OF assms])
  then show ?thesis by simp
qed

section \<open>The run driver: counting, state and exit status\<close>

lemma submitAll_counted:
  "counted acc \<Longrightarrow> counted (submitAll f cfg tok i ts acc)"
proof (induction ts arbitrary: i acc)
  case Nil
  then show ?case by simp
next
  case (Cons t ts)
  from Cons.prems show ?case
    apply (simp add: Let_def split: prod.split)
    apply (intro allI impI conjI Cons.IH)
     apply (simp_all add: counted_def)
    done
qed

lemma submitAll_length:
  "length (tallyResults (submitAll f cfg tok i ts acc)) = length (tallyResults acc) + length ts"
  by (induction ts arbitrary: i acc) (auto simp: Let_def split: prod.split)

lemma tallyOf_counts:
  "successCount (tallyOf e tok ts) = length (filter ok (tallyResults (tallyOf e tok ts)))"
  "failureCount (tallyOf e tok ts) = length (filter (\<lambda>r. \<not> ok r) (tallyResults (tallyOf e tok ts)))"
  "length (tallyResults (tallyOf e tok ts)) = length ts"
proof -
  have "counted \<lparr> successCount = 0, failureCount = 0, tallyResults = [], tallyRequests = [] \<rparr>"
    by (simp add: counted_def)
  from submitAll_counted [OF this]
  show "successCount (tallyOf e tok ts) = length (filter ok (tallyResults (tallyOf e tok ts)))"
    "failureCount (tallyOf e tok ts) = length (filter (\<lambda>r. \<not> ok r) (tallyResults (tallyOf e tok ts)))"
    unfolding tallyOf_def counted_def by blast+
  show "length (tallyResults (tallyOf e tok ts)) = length ts"
    unfolding tallyOf_def by (simp add: submitAll_length)
qed

lemma tally_success_iff:
  "0 < successCount (tallyOf e tok ts) \<longleftrightarrow> (\<exists>r \<in> set (tallyResults (tallyOf e tok ts)). ok r)"
  unfolding tallyOf_counts(1) by (auto simp: filter_empty_conv)

lemma tally_failure_iff:
  "0 < failureCount (tallyOf e tok ts) \<longleftrightarrow> (\<exists>r \<in> set (tallyResults (tallyOf e tok ts)). \<not> ok r)"
  unfolding tallyOf_counts(2) by (auto simp: filter_empty_conv)

lemma main_not_reached:
  assumes "OAUTH_TOKEN e = None \<or> OAUTH_TOKEN e = Some [] \<or> (\<exists>err. schedule e = Inl err)"
  shows "main e = \<lparr> exitStatus = 1, results = [], requests = [], written = None \<rparr>"
  using assms by (auto simp: main_def split: option.splits sum.splits)

lemma main_reached:
  assumes "OAUTH_TOKEN e = Some tok" "tok \<noteq> []" "schedule e = Inr ts"
  shows "results (main e) = tallyResults (tallyOf e tok ts)"
    and "written (main e) = (if successCount (tallyOf e tok ts) > 0 then Some (mathMax (map dayNum ts)) else None)"
    and "exitStatus (main e) =
           (if successCount (tallyOf e tok ts) > 0 \<and> writeThrows e then 1
            else if failureCount (tallyOf e tok ts) > 0 then 1 else 0)"
  using assms by (simp_all add: main_def tallyOf_def Let_def)

lemma main_cases:
  obtains (fatal) "main e = \<lparr> exitStatus = 1, results = [], requests = [], written = None \<rparr>"
  | (reached) tok ts where "OAUTH_TOKEN e = Some tok" "tok \<noteq> []" "schedule e = Inr ts"
proof (cases "OAUTH_TOKEN e = None \<or> OAUTH_TOKEN e = Some [] \<or> (\<exists>err. schedule e = Inl err)")
  case True
  then show ?thesis using main_not_reached fatal by blast
next
  case False
  then obtain tok where t: "OAUTH_TOKEN e = Some tok" "tok \<noteq> []" by auto
  from False obtain ts where "schedule e = Inr ts" by (cases "schedule e") auto
  with t show ?thesis using reached by blast
qed

lemma some_ok: "True \<in> set (map ok rs) \<Longrightarrow> \<exists>r \<in> set rs. ok r"
  by auto

lemma none_ok: "True \<notin> set (map ok rs) \<Longrightarrow> \<forall>r \<in> set rs. \<not> ok r"
  by auto



text \<open>
  C3. As stated (exit status 0 exactly when all four results are ok) the claim fails: when
  all four submissions succeed and the write of the state file throws, the exit status is 1.
\<close>

theorem C3_counterexample:
  "map ok (results (main envLiveWriteThrows)) = [True, True, True, True]
   \<and> exitStatus (main envLiveWriteThrows) = 1"
  by code_simp

text \<open>
  C3, amended. In a run that reaches the submissions (the token is set and the schedule is
  generated) all four descriptors are submitted, and the exit status is non-zero if and
  only if at least one of the four submissions failed or the write of the state file threw.
\<close>

theorem C3_exit_status:
  assumes "OAUTH_TOKEN e = Some tok" "tok \<noteq> []" "\<not> isl (schedule e)"
  shows "length (results (main e)) = 4
       \<and> (exitStatus (main e) \<noteq> 0 \<longleftrightarrow> (\<exists>r \<in> set (results (main e)). \<not> ok r) \<or> writeThrows e)"
proof -
  from assms(3) obtain ts where sch: "schedule e = Inr ts" by (cases "schedule e") auto
  note reached = assms(1,2) sch
  let ?t = "tallyOf e tok ts"
  have len: "length (tallyResults ?t) = 4"
    by (simp add: tallyOf_counts(3) schedule_length [OF sch])
  have res: "results (main e) = tallyResults ?t" by (rule main_reached(1) [OF reached])
  have all_ok: "0 < successCount ?t" if "\<not> (\<exists>r \<in> set (tallyResults ?t). \<not> ok r)"
  proof -
    from len obtain r where "r \<in> set (tallyResults ?t)" by (cases "tallyResults ?t") auto
    with that show ?thesis unfolding tally_success_iff by blast
  qed
  have "exitStatus (main e) \<noteq> 0 \<longleftrightarrow> (\<exists>r \<in> set (tallyResults ?t). \<not> ok r) \<or> writeThrows e"
    unfolding main_reached(3) [OF reached] using all_ok tally_failure_iff [of e tok ts] by auto
  then show ?thesis using len res by simp
qed

theorem C3_witness:
  "map ok (results (main envOneFailure)) = [True, False, True, True]
   \<and> exitStatus (main envOneFailure) \<noteq> 0"
proof -
  have h: "map ok (results (main envOneFailure)) = [True, False, True, True]"
    by code_simp
  have t: "OAUTH_TOKEN envOneFailure = Some ''lip_abc''" "''lip_abc'' \<noteq> []"
    by (simp_all add: envOneFailure_def)
  have s: "\<not> isl (schedule envOneFailure)" by code_simp
  have "False \<in> set (map ok (results (main envOneFailure)))" unfolding h by simp
  then have "\<exists>r \<in> set (results (main envOneFailure)). \<not> ok r" by auto
  with C3_exit_status [OF t s] h show ?thesis by blast
qed

text \<open>
  C8. After a run in which none of the submissions succeeded, \<open>writeFileSync\<close> is not
  called: the state file is left as it was.
\<close>

theorem C8_no_success_no_write:
  assumes "\<forall>r \<in> set (results (main e)). \<not> ok r"
  shows "written (main e) = None"
proof (cases e rule: main_cases)
  case fatal
  then show ?thesis by simp
next
  case (reached tok ts)
  from assms have "\<not> 0 < successCount (tallyOf e tok ts)"
    unfolding main_reached(1) [OF reached] tally_success_iff by blast
  then show ?thesis by (simp add: main_reached(2) [OF reached])
qed

theorem C8_witness:
  "map ok (results (main envAllFail)) = [False, False, False, False]
   \<and> written (main envAllFail) = None"
proof -
  have h: "map ok (results (main envAllFail)) = [False, False, False, False]"
    by code_simp
  have "True \<notin> set (map ok (results (main envAllFail)))" unfolding h by simp
  then have "\<forall>r \<in> set (results (main envAllFail)). \<not> ok r" by (rule none_ok)
  from C8_no_success_no_write [OF this] h show ?thesis by simp
qed

text \<open>
  C10. When the write of the state file, made after at least one successful submission,
  throws, the run exits with status 1, also when all four submissions succeeded.
\<close>

theorem C10_write_failure_exits_1:
  assumes "writeThrows e" and "\<exists>r \<in> set (results (main e)). ok r"
  shows "exitStatus (main e) = 1"
proof (cases e rule: main_cases)
  case fatal
  then show ?thesis by simp
next
  case (reached tok ts)
  from assms(2) have "0 < successCount (tallyOf e tok ts)"
    unfolding main_reached(1) [OF reached] tally_success_iff .
  with assms(1) show ?thesis by (simp add: main_reached(3) [OF reached])
qed

theorem C10_witness:
  "map ok (results (main envDryWriteThrows)) = [True, True, True, True]
   \<and> exitStatus (main envDryWriteThrows) = 1"
proof -
  have h: "map ok (results (main envDryWriteThrows)) = [True, True, True, True]"
    by code_simp
  have w: "writeThrows envDryWriteThrows" by (simp add: envDryWriteThrows_def)
  have "True \<in> set (map ok (results (main envDryWriteThrows)))" unfolding h by simp
  then have "\<exists>r \<in> set (results (main envDryWriteThrows)). ok r" by (rule some_ok)
  from C10_write_failure_exits_1 [OF w this] h show ?thesis by simp
qed

section \<open>The calendar\<close>
















lemma leapFlag_cases: "leapFlag y = 0 \<or> leapFlag y = 1"
  by (simp add: leapFlag_def)



















section \<open>The schedule: dates\<close>

















lemma DayNumber_nonneg: "0 \<le> t \<Longrightarrow> 0 \<le> DayNumber t"
  by (simp add: DayNumber_def msPerDay_def pos_imp_zdiv_nonneg_iff)





lemma rollover_examples:
  "nextCalendarDay (2024, 2, 29) = (2024, 3, 1)"
  "nextCalendarDay (2023, 2, 28) = (2023, 3, 1)"
  "nextCalendarDay (2024, 12, 31) = (2025, 1, 1)"
  "nextCalendarDay (2100, 2, 28) = (2100, 3, 1)"
  by code_simp+



end
